theory Spec2Isabelle
  imports Main "HOL-Library.Word" "HOL-Library.Signed_Division"
begin

unbundle bit_operations_syntax

section \<open>go-osc: the OSC codec of osc.go\<close>

text \<open>
  A shallow embedding of \<^verbatim>\<open>src/osc/osc.go\<close>. A Go \<^verbatim>\<open>[]byte\<close> and the contents of a
  \<^verbatim>\<open>bytes.Buffer\<close> are lists of 8-bit words, a Go \<^verbatim>\<open>string\<close> is a \<open>string\<close>
  (a list of 8-bit characters), \<^verbatim>\<open>int32\<close>, \<^verbatim>\<open>int64\<close> and \<^verbatim>\<open>uint64\<close> are words of
  that width. A Go \<^verbatim>\<open>int\<close> that holds the length of a value in memory is an \<open>int\<close>:
  such a length stays far below \<open>2 ^ 63\<close>, so the arithmetic on it never wraps.
  Writes to a \<^verbatim>\<open>bytes.Buffer\<close> never return an error, so the error branches that
  follow them in the source have no counterpart here.
\<close>

subsection \<open>Bytes, strings and big-endian numbers\<close>

type_synonym byte = "8 word"

definition bytes_of_string :: "string \<Rightarrow> byte list" where
  "bytes_of_string s = map of_char s"

definition string_of_bytes :: "byte list \<Rightarrow> string" where
  "string_of_bytes bs = map (\<lambda>b. char_of (unat b)) bs"

text \<open>\<^verbatim>\<open>binary.Write(w, binary.BigEndian, v)\<close> for a 32-bit and a 64-bit value.\<close>

definition be32 :: "32 word \<Rightarrow> byte list" where
  "be32 w = [ucast (drop_bit 24 w), ucast (drop_bit 16 w), ucast (drop_bit 8 w), ucast w]"

definition be64 :: "64 word \<Rightarrow> byte list" where
  "be64 w = [ucast (drop_bit 56 w), ucast (drop_bit 48 w), ucast (drop_bit 40 w),
             ucast (drop_bit 32 w), ucast (drop_bit 24 w), ucast (drop_bit 16 w),
             ucast (drop_bit 8 w), ucast w]"

subsection \<open>Padding\<close>

text \<open>
  \<^verbatim>\<open>func padBytesNeeded(elementLen int) int { return 4*(elementLen/4+1) - elementLen }\<close>
  Go's \<^verbatim>\<open>/\<close> truncates towards zero: \<open>sdiv\<close>.
\<close>

definition padBytesNeeded :: "int \<Rightarrow> int" where
  "padBytesNeeded elementLen = 4 * (elementLen sdiv 4 + 1) - elementLen"

text \<open>
  \<^verbatim>\<open>writePaddedString(str, buff)\<close>: the buffer after the call and the number of bytes
  the call reports.
\<close>

definition writePaddedString :: "string \<Rightarrow> byte list \<Rightarrow> byte list \<times> int" where
  "writePaddedString str buff =
     (let buff1 = buff @ bytes_of_string str;
          n = int (length str);
          numPadBytes = padBytesNeeded (int (length str))
      in if numPadBytes > 0
         then (buff1 @ replicate (nat numPadBytes) 0, n + numPadBytes)
         else (buff1, n + numPadBytes))"

text \<open>
  \<^verbatim>\<open>writeBlob(data, buff)\<close>: the length as an \<^verbatim>\<open>int32\<close> (the conversion wraps), the
  data, then \<^verbatim>\<open>padBytesNeeded(len(data))\<close> zero bytes.
\<close>

definition writeBlob :: "byte list \<Rightarrow> byte list \<Rightarrow> byte list \<times> int" where
  "writeBlob data buff =
     (let dlen = (of_nat (length data) :: 32 word);
          buff1 = buff @ be32 dlen;
          buff2 = buff1 @ data;
          numPadBytes = padBytesNeeded (int (length data))
      in if numPadBytes > 0
         then (buff2 @ replicate (nat numPadBytes) 0, 4 + int (length data) + numPadBytes)
         else (buff2, 4 + int (length data) + numPadBytes))"

subsection \<open>Errors\<close>

text \<open>
  The source reports failures as Go \<^verbatim>\<open>error\<close> values: \<^verbatim>\<open>io.EOF\<close> and
  \<^verbatim>\<open>io.ErrUnexpectedEOF\<close> from the readers, the messages it builds with
  \<^verbatim>\<open>errors.New\<close>, and the errors of package \<^verbatim>\<open>net\<close>. A run-time panic
  (an index out of range) is a failure too.
\<close>

datatype error =
    EOF
  | ErrUnexpectedEOF
  | UnsupportedType                \<comment> \<open>\<^verbatim>\<open>"OSC - unsupported type: %T"\<close>\<close>
  | InvalidBundleStartTag string   \<comment> \<open>\<^verbatim>\<open>"Invalid bundle start tag: %s"\<close>\<close>
  | NoBundleElementFound           \<comment> \<open>\<^verbatim>\<open>"No bundle element found"\<close>\<close>
  | UnsupportedTypeTagString       \<comment> \<open>\<^verbatim>\<open>"Unsupported type tag string"\<close>\<close>
  | UnsupportedTypeTag char        \<comment> \<open>\<^verbatim>\<open>"Unsupported type tag: %c"\<close>\<close>
  | PanicIndexOutOfRange
  | NetError string                \<comment> \<open>an error of package \<^verbatim>\<open>net\<close>\<close>

subsection \<open>Time and time tags\<close>

text \<open>
  A \<^verbatim>\<open>time.Time\<close> as the source reads it: \<^verbatim>\<open>Unix()\<close>, an \<^verbatim>\<open>int64\<close>, and
  \<^verbatim>\<open>Nanosecond()\<close>, an \<^verbatim>\<open>int\<close> in the range 0 to 999999999.
\<close>

record Time =
  Unix :: "64 word"
  Nanosecond :: "64 word"

text \<open>
  \<^verbatim>\<open>time.Unix(sec, nsec)\<close> of the Go library brings \<^verbatim>\<open>nsec\<close> into the range
  0 to 999999999 and carries the rest into \<^verbatim>\<open>sec\<close>; comparisons and the division
  are signed.
\<close>

definition time_Unix :: "64 word \<Rightarrow> 64 word \<Rightarrow> Time" where
  "time_Unix sec nsec =
     (if sint nsec < 0 \<or> sint nsec \<ge> 1000000000
      then (let n = (word_of_int (sint nsec sdiv 1000000000) :: 64 word);
                sec1 = sec + n;
                nsec1 = nsec - n * 1000000000
            in if sint nsec1 < 0
               then \<lparr>Unix = sec1 - 1, Nanosecond = nsec1 + 1000000000\<rparr>
               else \<lparr>Unix = sec1, Nanosecond = nsec1\<rparr>)
      else \<lparr>Unix = sec, Nanosecond = nsec\<rparr>)"

definition secondsFrom1900To1970 :: "64 word" where
  "secondsFrom1900To1970 = 2208988800"

definition timeTagImmediate :: "64 word" where
  "timeTagImmediate = 1"

text \<open>
  \<^verbatim>\<open>timetag = uint64((secondsFrom1900To1970 + time.Unix()) << 32)\<close>
  \<^verbatim>\<open>return (timetag + uint64(uint32(time.Nanosecond())))\<close>
\<close>

definition timeToTimetag :: "Time \<Rightarrow> 64 word" where
  "timeToTimetag t =
     (let timetag = push_bit 32 (secondsFrom1900To1970 + Unix t)
      in timetag + ucast (ucast (Nanosecond t) :: 32 word))"

text \<open>
  \<^verbatim>\<open>time.Unix(int64((timetag>>32)-secondsFrom1900To1970), int64(timetag&0xffffffff))\<close>
\<close>

definition timetagToTime :: "64 word \<Rightarrow> Time" where
  "timetagToTime timetag =
     time_Unix (drop_bit 32 timetag - secondsFrom1900To1970) (timetag AND 0xffffffff)"

record OscTimetag =
  timeTag :: "64 word"
  time :: Time
  MinValue :: "64 word"

definition NewOscTimetag :: "Time \<Rightarrow> OscTimetag" where
  "NewOscTimetag timeStamp =
     \<lparr>timeTag = timeToTimetag timeStamp, time = timeStamp, MinValue = 1\<rparr>"

definition NewOscTimetagFromTimetag :: "64 word \<Rightarrow> OscTimetag" where
  "NewOscTimetagFromTimetag timetag = NewOscTimetag (timetagToTime timetag)"

definition FractionalSecond :: "OscTimetag \<Rightarrow> 32 word" where
  "FractionalSecond self = ucast (push_bit 32 (timeTag self))"

definition SecondsSinceEpoch :: "OscTimetag \<Rightarrow> 32 word" where
  "SecondsSinceEpoch self = ucast (drop_bit 32 (timeTag self))"

definition OscTimetag_ToByteArray :: "OscTimetag \<Rightarrow> byte list" where
  "OscTimetag_ToByteArray self = be64 (timeTag self)"

subsection \<open>Messages\<close>

text \<open>
  An argument is a Go \<^verbatim>\<open>interface{}\<close>. The model lists the dynamic types the source
  tells apart: the nil interface, \<^verbatim>\<open>bool\<close>, \<^verbatim>\<open>int32\<close>, \<^verbatim>\<open>float32\<close>,
  \<^verbatim>\<open>string\<close>, \<^verbatim>\<open>[]byte\<close>, \<^verbatim>\<open>int64\<close>, \<^verbatim>\<open>float64\<close>, \<^verbatim>\<open>OscTimetag\<close>, the
  pointer \<^verbatim>\<open>*OscTimetag\<close> that \<^verbatim>\<open>NewOscTimetagFromTimetag\<close> returns, and any
  other type. A float is kept as its IEEE 754 bit pattern, which is what
  \<^verbatim>\<open>binary.Write\<close> and \<^verbatim>\<open>binary.Read\<close> transfer.
\<close>

datatype argument =
    NilV
  | BoolV bool
  | Int32V "32 word"
  | Float32V "32 word"
  | StringV string
  | BlobV "byte list"
  | Int64V "64 word"
  | Float64V "64 word"
  | TimetagV OscTimetag
  | TimetagPtrV OscTimetag
  | OtherV

record OscMessage =
  Address :: string
  arguments :: "argument list"

definition NewOscMessage :: "string \<Rightarrow> OscMessage" where
  "NewOscMessage address = \<lparr>Address = address, arguments = []\<rparr>"

text \<open>
  \<^verbatim>\<open>Append\<close> returns the message after the call and the error; the named result
  \<^verbatim>\<open>err\<close> is still nil when the first branch returns it.
\<close>

definition Append :: "OscMessage \<Rightarrow> argument \<Rightarrow> OscMessage \<times> error option" where
  "Append msg argument =
     (if argument = NilV then (msg, None)
      else (msg\<lparr>arguments := arguments msg @ [argument]\<rparr>, None))"

definition CountArguments :: "OscMessage \<Rightarrow> int" where
  "CountArguments msg = int (length (arguments msg))"

text \<open>
  \<^verbatim>\<open>func (msg *OscMessage) Match(address string) bool\<close>: both branches return
  \<^verbatim>\<open>true\<close>.
\<close>

definition Match :: "OscMessage \<Rightarrow> string \<Rightarrow> bool" where
  "Match msg address = (if Address msg = address then True else True)"

text \<open>
  The loop of \<^verbatim>\<open>OscMessage.ToByteArray\<close> over the arguments, with the type tags
  and the payload collected so far. An argument of another type ends the encoding
  with an error.
\<close>

fun encodeArguments :: "argument list \<Rightarrow> string \<Rightarrow> byte list \<Rightarrow> error + (string \<times> byte list)" where
  "encodeArguments [] typetags payload = Inr (typetags, payload)"
| "encodeArguments (arg # args) typetags payload =
     (case arg of
        BoolV b \<Rightarrow>
          (if b = True then encodeArguments args (typetags @ ''T'') payload
           else encodeArguments args (typetags @ ''F'') payload)
      | NilV \<Rightarrow> encodeArguments args (typetags @ ''N'') payload
      | Int32V t \<Rightarrow> encodeArguments args (typetags @ ''i'') (payload @ be32 t)
      | Float32V t \<Rightarrow> encodeArguments args (typetags @ ''f'') (payload @ be32 t)
      | StringV t \<Rightarrow> encodeArguments args (typetags @ ''s'') (fst (writePaddedString t payload))
      | BlobV t \<Rightarrow> encodeArguments args (typetags @ ''b'') (fst (writeBlob t payload))
      | Int64V t \<Rightarrow> encodeArguments args (typetags @ ''h'') (payload @ be64 t)
      | Float64V t \<Rightarrow> encodeArguments args (typetags @ ''d'') (payload @ be64 t)
      | TimetagV tt \<Rightarrow>
          encodeArguments args (typetags @ ''t'') (payload @ OscTimetag_ToByteArray tt)
      | TimetagPtrV _ \<Rightarrow> Inl UnsupportedType
      | OtherV \<Rightarrow> Inl UnsupportedType)"

definition OscMessage_ToByteArray :: "OscMessage \<Rightarrow> error + byte list" where
  "OscMessage_ToByteArray msg =
     (let data = fst (writePaddedString (Address msg) [])
      in case encodeArguments (arguments msg) '','' [] of
           Inl err \<Rightarrow> Inl err
         | Inr (typetags, payload) \<Rightarrow>
             (let data1 = fst (writePaddedString typetags data)
              in Inr (data1 @ payload)))"

subsection \<open>Bundles and packets\<close>

datatype OscBundle =
  OscBundle (Timetag: OscTimetag) (Messages: "OscMessage list") (Bundles: "OscBundle list")

text \<open>\<^verbatim>\<open>OscPacket\<close> is the interface that \<^verbatim>\<open>*OscMessage\<close> and \<^verbatim>\<open>*OscBundle\<close> implement.\<close>

datatype OscPacket = MessagePacket OscMessage | BundlePacket OscBundle

definition NewOscBundle :: "Time \<Rightarrow> OscBundle" where
  "NewOscBundle t = OscBundle (NewOscTimetag t) [] []"

fun OscBundle_Append :: "OscBundle \<Rightarrow> OscPacket \<Rightarrow> OscBundle" where
  "OscBundle_Append (OscBundle tt ms bs) (BundlePacket t) = OscBundle tt ms (bs @ [t])"
| "OscBundle_Append (OscBundle tt ms bs) (MessagePacket t) = OscBundle tt (ms @ [t]) bs"

text \<open>
  The first loop of \<^verbatim>\<open>OscBundle.ToByteArray\<close>: each message as its length, an
  \<^verbatim>\<open>int32\<close>, and its bytes.
\<close>

fun encodeMessages :: "OscMessage list \<Rightarrow> byte list \<Rightarrow> error + byte list" where
  "encodeMessages [] data = Inr data"
| "encodeMessages (m # ms) data =
     (case OscMessage_ToByteArray m of
        Inl err \<Rightarrow> Inl err
      | Inr msgBuf \<Rightarrow>
          encodeMessages ms (data @ be32 (of_nat (length msgBuf)) @ msgBuf))"

text \<open>
  \<^verbatim>\<open>OscBundle.ToByteArray\<close>, with its second loop, over the nested bundles, as
  \<open>encodeBundles\<close>.
\<close>

fun OscBundle_ToByteArray :: "OscBundle \<Rightarrow> error + byte list"
  and encodeBundles :: "OscBundle list \<Rightarrow> byte list \<Rightarrow> error + byte list" where
  "OscBundle_ToByteArray (OscBundle tt ms bs) =
     (let data = fst (writePaddedString ''#bundle'' []);
          data1 = data @ OscTimetag_ToByteArray tt
      in case encodeMessages ms data1 of
           Inl err \<Rightarrow> Inl err
         | Inr data2 \<Rightarrow> encodeBundles bs data2)"
| "encodeBundles [] data = Inr data"
| "encodeBundles (b # bs) data =
     (case OscBundle_ToByteArray b of
        Inl err \<Rightarrow> Inl err
      | Inr bBuf \<Rightarrow> encodeBundles bs (data @ be32 (of_nat (length bBuf)) @ bBuf))"

fun ToByteArray :: "OscPacket \<Rightarrow> error + byte list" where
  "ToByteArray (MessagePacket m) = OscMessage_ToByteArray m"
| "ToByteArray (BundlePacket b) = OscBundle_ToByteArray b"

subsection \<open>Readers\<close>

text \<open>
  A \<^verbatim>\<open>bufio.Reader\<close> over a byte buffer is the list of the bytes not read yet. The
  buffers the server reads hold 1024 bytes, less than the reader's own buffer, so
  the reader holds all of them after its first fill and \<^verbatim>\<open>Read\<close> returns as many
  bytes as it was asked for, or all that are left.

  \<^verbatim>\<open>ReadString(delim)\<close> reads up to the first \<^verbatim>\<open>delim\<close> and returns the bytes read
  with the delimiter, or \<^verbatim>\<open>io.EOF\<close> when there is none.
\<close>

type_synonym reader = "byte list"

fun ReadString :: "byte \<Rightarrow> reader \<Rightarrow> error + (byte list \<times> reader)" where
  "ReadString delim [] = Inl EOF"
| "ReadString delim (b # bs) =
     (if b = delim then Inr ([b], bs)
      else (case ReadString delim bs of
              Inl err \<Rightarrow> Inl err
            | Inr (str, rest) \<Rightarrow> Inr (b # str, rest)))"

text \<open>\<^verbatim>\<open>reader.Read(p)\<close> with \<^verbatim>\<open>len(p) = n\<close>, \<open>n\<close> positive: the reader after the call.\<close>

definition Read :: "nat \<Rightarrow> reader \<Rightarrow> error + reader" where
  "Read n reader = (if reader = [] then Inl EOF else Inr (drop n reader))"

text \<open>
  \<^verbatim>\<open>reader.Peek(1)\<close>: the next byte, which stays in the reader.
\<close>

definition Peek1 :: "reader \<Rightarrow> error + byte" where
  "Peek1 reader = (case reader of [] \<Rightarrow> Inl EOF | b # _ \<Rightarrow> Inr b)"

text \<open>
  \<^verbatim>\<open>binary.Read(reader, binary.BigEndian, &v)\<close> reads the size of \<^verbatim>\<open>v\<close> with
  \<^verbatim>\<open>io.ReadFull\<close>: \<^verbatim>\<open>io.EOF\<close> when no byte is left, \<^verbatim>\<open>io.ErrUnexpectedEOF\<close>
  when too few are; \<^verbatim>\<open>v\<close> is the big-endian value of the bytes, and for a
  \<^verbatim>\<open>bool\<close> whether the one byte read is not zero.
\<close>

definition ReadFull :: "nat \<Rightarrow> reader \<Rightarrow> error + (byte list \<times> reader)" where
  "ReadFull n reader =
     (if length reader < n then Inl (if reader = [] then EOF else ErrUnexpectedEOF)
      else Inr (take n reader, drop n reader))"

definition word_be :: "byte list \<Rightarrow> 'a::len word" where
  "word_be bs = foldl (\<lambda>w b. push_bit 8 w OR ucast b) 0 bs"

definition binary_Read_int32 :: "reader \<Rightarrow> error + (32 word \<times> reader)" where
  "binary_Read_int32 reader =
     (case ReadFull 4 reader of Inl err \<Rightarrow> Inl err | Inr (bs, rest) \<Rightarrow> Inr (word_be bs, rest))"

definition binary_Read_int64 :: "reader \<Rightarrow> error + (64 word \<times> reader)" where
  "binary_Read_int64 reader =
     (case ReadFull 8 reader of Inl err \<Rightarrow> Inl err | Inr (bs, rest) \<Rightarrow> Inr (word_be bs, rest))"

definition binary_Read_bool :: "reader \<Rightarrow> error + (bool \<times> reader)" where
  "binary_Read_bool reader =
     (case ReadFull 1 reader of
        Inl err \<Rightarrow> Inl err
      | Inr (bs, rest) \<Rightarrow> Inr (bs \<noteq> [0], rest))"

subsection \<open>Decoding\<close>

text \<open>
  \<^verbatim>\<open>readPaddedString\<close>: the string up to the first zero byte, then
  \<^verbatim>\<open>padBytesNeeded(len(str)) - 1\<close> more bytes taken from the reader.
\<close>

definition readPaddedString :: "reader \<Rightarrow> error + (string \<times> reader)" where
  "readPaddedString reader =
     (case ReadString 0 reader of
        Inl err \<Rightarrow> Inl err
      | Inr (str0, reader1) \<Rightarrow>
          (let str = butlast str0;
               padLen = padBytesNeeded (int (length str)) - 1
           in if padLen > 0
              then (case Read (nat padLen) reader1 of
                      Inl err \<Rightarrow> Inl err
                    | Inr reader2 \<Rightarrow> Inr (string_of_bytes str, reader2))
              else Inr (string_of_bytes str, reader1)))"

text \<open>
  \<^verbatim>\<open>readBlob\<close> has no body yet (\<^verbatim>\<open>// TODO\<close>): it returns the bytes of a fresh
  buffer, that is none, and reads nothing.
\<close>

definition readBlob :: "reader \<Rightarrow> error + (byte list \<times> reader)" where
  "readBlob reader = Inr ([], reader)"

text \<open>
  The loop of \<^verbatim>\<open>readArguments\<close> over the type tags. There is no case for
  \<^verbatim>\<open>'N'\<close>; the cases \<^verbatim>\<open>'T'\<close> and \<^verbatim>\<open>'F'\<close> read a \<^verbatim>\<open>bool\<close> from the reader; the
  case \<^verbatim>\<open>'t'\<close> returns nil, not the error, when the read fails (the read has then
  taken every byte that was left). The tags are looked at as characters: a byte
  that is not ASCII starts a rune that matches no case either.
\<close>

fun readArgumentsLoop :: "string \<Rightarrow> OscMessage \<Rightarrow> reader \<Rightarrow> error + (OscMessage \<times> reader)" where
  "readArgumentsLoop [] msg reader = Inr (msg, reader)"
| "readArgumentsLoop (c # cs) msg reader =
     (if c = CHR ''i'' then
        (case binary_Read_int32 reader of
           Inl err \<Rightarrow> Inl err
         | Inr (i, reader1) \<Rightarrow> readArgumentsLoop cs (fst (Append msg (Int32V i))) reader1)
      else if c = CHR ''h'' then
        (case binary_Read_int64 reader of
           Inl err \<Rightarrow> Inl err
         | Inr (i, reader1) \<Rightarrow> readArgumentsLoop cs (fst (Append msg (Int64V i))) reader1)
      else if c = CHR ''f'' then
        (case binary_Read_int32 reader of
           Inl err \<Rightarrow> Inl err
         | Inr (f, reader1) \<Rightarrow> readArgumentsLoop cs (fst (Append msg (Float32V f))) reader1)
      else if c = CHR ''d'' then
        (case binary_Read_int64 reader of
           Inl err \<Rightarrow> Inl err
         | Inr (d, reader1) \<Rightarrow> readArgumentsLoop cs (fst (Append msg (Float64V d))) reader1)
      else if c = CHR ''s'' then
        (case readPaddedString reader of
           Inl err \<Rightarrow> Inl err
         | Inr (s, reader1) \<Rightarrow> readArgumentsLoop cs (fst (Append msg (StringV s))) reader1)
      else if c = CHR ''b'' then
        (case readBlob reader of
           Inl err \<Rightarrow> Inl err
         | Inr (buf, reader1) \<Rightarrow> readArgumentsLoop cs (fst (Append msg (BlobV buf))) reader1)
      else if c = CHR ''t'' then
        (case binary_Read_int64 reader of
           Inl err \<Rightarrow> Inr (msg, [])
         | Inr (tt, reader1) \<Rightarrow>
             readArgumentsLoop cs
               (fst (Append msg (TimetagPtrV (NewOscTimetagFromTimetag tt)))) reader1)
      else if c = CHR ''T'' then
        (case binary_Read_bool reader of
           Inl err \<Rightarrow> Inl err
         | Inr (t, reader1) \<Rightarrow> readArgumentsLoop cs (fst (Append msg (BoolV t))) reader1)
      else if c = CHR ''F'' then
        (case binary_Read_bool reader of
           Inl err \<Rightarrow> Inl err
         | Inr (t, reader1) \<Rightarrow> readArgumentsLoop cs (fst (Append msg (BoolV t))) reader1)
      else Inl (UnsupportedTypeTag c))"

text \<open>
  \<^verbatim>\<open>readArguments\<close>: \<^verbatim>\<open>typetags[0]\<close> panics on the empty string.
\<close>

definition readArguments :: "OscMessage \<Rightarrow> reader \<Rightarrow> error + (OscMessage \<times> reader)" where
  "readArguments msg reader =
     (case readPaddedString reader of
        Inl err \<Rightarrow> Inl err
      | Inr (typetags, reader1) \<Rightarrow>
          (case typetags of
             [] \<Rightarrow> Inl PanicIndexOutOfRange
           | c # rest \<Rightarrow>
               if c \<noteq> CHR '','' then Inl UnsupportedTypeTagString
               else readArgumentsLoop rest msg reader1))"

definition readMessage :: "reader \<Rightarrow> error + (OscMessage \<times> reader)" where
  "readMessage reader =
     (case readPaddedString reader of
        Inl err \<Rightarrow> Inl err
      | Inr (address, reader1) \<Rightarrow> readArguments (NewOscMessage address) reader1)"

text \<open>
  \<^verbatim>\<open>readBundle\<close>. Three statements of the source do not type-check and are read
  as what they are written for: \<^verbatim>\<open>NewOscBundle(timetagToTime(timeTag))\<close> converts
  the \<^verbatim>\<open>int64\<close> read to the \<^verbatim>\<open>uint64\<close> the function takes;
  \<^verbatim>\<open>msgLen = binary.Read(reader, binary.BigEndian, &msgLen)\<close> reads \<^verbatim>\<open>msgLen\<close>,
  which keeps its zero value when the read fails; the last line,
  \<^verbatim>\<open>return nil, bundle\<close>, returns the bundle and no error. The function reads one
  element after the time tag, a message or a bundle, and returns.
\<close>

function readBundle :: "reader \<Rightarrow> error + (OscBundle \<times> reader)" where
  "readBundle reader =
     (case readPaddedString reader of
        Inl err \<Rightarrow> Inl err
      | Inr (startTag, reader1) \<Rightarrow>
          if startTag \<noteq> ''#bundle'' then Inl (InvalidBundleStartTag startTag)
          else
            (case binary_Read_int64 reader1 of
               Inl err \<Rightarrow> Inl err
             | Inr (tt, reader2) \<Rightarrow>
                 (let bundle = NewOscBundle (timetagToTime tt);
                      (msgLen, reader3) =
                        (case binary_Read_int32 reader2 of
                           Inl err \<Rightarrow> (0, [])
                         | Inr r \<Rightarrow> r)
                  in if sint msgLen < 1 then Inl NoBundleElementFound
                     else
                       (case Peek1 reader3 of
                          Inl err \<Rightarrow> Inl err
                        | Inr b0 \<Rightarrow>
                            if b0 = of_char CHR ''/'' then
                              (case readMessage reader3 of
                                 Inl err \<Rightarrow> Inl err
                               | Inr (msg, reader4) \<Rightarrow>
                                   Inr (OscBundle_Append bundle (MessagePacket msg), reader4))
                            else if b0 = of_char CHR ''#'' then
                              (case readBundle reader3 of
                                 Inl err \<Rightarrow> Inl err
                               | Inr (b, reader4) \<Rightarrow>
                                   Inr (OscBundle_Append bundle (BundlePacket b), reader4))
                            else Inr (bundle, reader3)))))"
  by pat_completeness auto
termination
proof -
  have rs: "length r1 < length r" if "ReadString d r = Inr (s, r1)" for d r s r1
    using that by (induction r arbitrary: s) (auto split: if_splits sum.splits)
  have rd: "length r1 \<le> length r" if "Read n r = Inr r1" for n r r1
    using that by (auto simp: Read_def split: if_splits)
  have rp: "length r1 < length r" if "readPaddedString r = Inr (s, r1)" for r s r1
    using that
    by (auto simp: readPaddedString_def Let_def split: sum.splits if_splits prod.splits
        dest!: rs rd)
  have rf: "length r1 \<le> length r" if "ReadFull n r = Inr (bs, r1)" for n r bs r1
    using that by (auto simp: ReadFull_def split: if_splits)
  have r64: "length r1 \<le> length r" if "binary_Read_int64 r = Inr (v, r1)" for r v r1
    using that by (auto simp: binary_Read_int64_def split: sum.splits dest: rf)
  have r32: "length r1 \<le> length r" if "binary_Read_int32 r = Inr (v, r1)" for r v r1
    using that by (auto simp: binary_Read_int32_def split: sum.splits dest: rf)
  show ?thesis
    apply (relation "measure length")
     apply simp
    apply (auto split: sum.splits dest!: rp r64 r32)
    done
qed

declare readBundle.simps [simp del]

text \<open>
  \<^verbatim>\<open>readFromConnection\<close>. What \<^verbatim>\<open>conn.ReadFromUDP\<close> returns is an argument: an
  error, or the datagram, of which the first 1024 bytes reach \<^verbatim>\<open>buf\<close>. The reader
  is made from the whole of \<^verbatim>\<open>buf\<close>, so the bytes after the datagram are zero.
  \<^verbatim>\<open>time.Now()\<close> is an argument too. The result is the error, or the bundle, which
  is still nil (\<open>None\<close>) when neither branch on the first byte is taken.
\<close>

definition readFromConnection :: "Time \<Rightarrow> error + byte list \<Rightarrow> error + OscBundle option" where
  "readFromConnection now received =
     (case received of
        Inl err \<Rightarrow> Inl err
      | Inr datagram \<Rightarrow>
          (let buf = take 1024 datagram @ replicate (1024 - length datagram) 0;
               reader = buf
           in case Peek1 reader of
                Inl err \<Rightarrow> Inl err
              | Inr b0 \<Rightarrow>
                  if b0 = of_char CHR ''/'' then
                    (case readMessage reader of
                       Inl err \<Rightarrow> Inl err
                     | Inr (msg, _) \<Rightarrow>
                         Inr (Some (OscBundle_Append (NewOscBundle now) (MessagePacket msg))))
                  else if b0 = of_char CHR ''#'' then
                    (case readBundle reader of
                       Inl err \<Rightarrow> Inl err
                     | Inr (bundle, _) \<Rightarrow> Inr (Some bundle))
                  else Inr None))"

subsection \<open>The client\<close>

text \<open>
  The calls of \<^verbatim>\<open>OscClient.Send\<close> into package \<^verbatim>\<open>net\<close>. What the network does
  is a record the functions take as an argument: \<^verbatim>\<open>net.ResolveUDPAddr\<close> on the
  address and the port that \<^verbatim>\<open>fmt.Sprintf("%s:%d", ...)\<close> joins, the dial of a
  remote address, and \<^verbatim>\<open>conn.Write\<close>.
\<close>

datatype UDPAddr = UDPAddr string int

datatype UDPConn = UDPConn UDPAddr

record Net =
  ResolveUDPAddr :: "string \<Rightarrow> int \<Rightarrow> error + UDPAddr"
  dialUDP :: "UDPAddr \<Rightarrow> error + UDPConn"
  Write :: "UDPConn \<Rightarrow> byte list \<Rightarrow> error + int"

text \<open>
  \<^verbatim>\<open>net.DialUDP("udp", nil, raddr)\<close> of the Go library: a nil remote address, which
  is what a failed resolution leaves in \<^verbatim>\<open>addr\<close>, is refused with the error
  "missing address" before anything is dialled.
\<close>

definition errMissingAddress :: error where
  "errMissingAddress = NetError ''missing address''"

definition DialUDP :: "Net \<Rightarrow> UDPAddr option \<Rightarrow> error + UDPConn" where
  "DialUDP net raddr =
     (case raddr of
        None \<Rightarrow> Inl errMissingAddress
      | Some a \<Rightarrow> dialUDP net a)"

record OscClient =
  ipaddress :: string
  port :: int

definition NewOscClient :: "string \<Rightarrow> int \<Rightarrow> OscClient" where
  "NewOscClient ip p = \<lparr>ipaddress = ip, port = p\<rparr>"

text \<open>
  \<^verbatim>\<open>addr, _ := net.ResolveUDPAddr(...)\<close>: the error of the resolution goes to the
  blank identifier. The result of \<open>Send\<close> is the error it returns, \<open>None\<close> for nil.
\<close>

definition Send :: "Net \<Rightarrow> OscClient \<Rightarrow> OscPacket \<Rightarrow> error option" where
  "Send net client packet =
     (let addr = (case ResolveUDPAddr net (ipaddress client) (port client) of
                    Inl _ \<Rightarrow> None
                  | Inr a \<Rightarrow> Some a)
      in case DialUDP net addr of
           Inl err \<Rightarrow> Some err
         | Inr conn \<Rightarrow>
             (case ToByteArray packet of
                Inl err \<Rightarrow> Some err
              | Inr data \<Rightarrow>
                  (case Write net conn data of
                     Inl err \<Rightarrow> Some err
                   | Inr _ \<Rightarrow> None)))"

text \<open>
  A message built through the public interface: \<^verbatim>\<open>NewOscMessage\<close>, then a call
  of \<^verbatim>\<open>Append\<close> for each argument in turn.
\<close>

definition appendAll :: "OscMessage \<Rightarrow> argument list \<Rightarrow> OscMessage" where
  "appendAll msg args = foldl (\<lambda>m a. fst (Append m a)) msg args"

text \<open>
  Encoding a message with \<^verbatim>\<open>OscMessage.ToByteArray\<close> and decoding the bytes with
  \<^verbatim>\<open>readMessage\<close>.
\<close>

definition roundTrip :: "OscMessage \<Rightarrow> error + OscMessage" where
  "roundTrip msg =
     (case OscMessage_ToByteArray msg of
        Inl err \<Rightarrow> Inl err
      | Inr data \<Rightarrow>
          (case readMessage data of
             Inl err \<Rightarrow> Inl err
           | Inr (decoded, _) \<Rightarrow> Inr decoded))"

section \<open>Properties\<close>

subsection \<open>Padding\<close>

lemma padBytesNeeded_nonneg: "0 \<le> n \<Longrightarrow> padBytesNeeded n = 4 - n mod 4"
  by (simp add: padBytesNeeded_def signed_divide_int_def sgn_if minus_mult_div_eq_mod [symmetric])

lemma padBytesNeeded_nat: "nat (padBytesNeeded (int n)) = 4 - n mod 4"
proof -
  have "int n mod 4 = int (n mod 4)" by (simp add: zmod_int)
  then show ?thesis by (simp add: padBytesNeeded_nonneg nat_diff_distrib' del: of_nat_mod)
qed

lemma padBytesNeeded_pos: "0 < padBytesNeeded (int n)"
proof -
  have "int n mod 4 < 4" by simp
  then show ?thesis by (simp add: padBytesNeeded_nonneg)
qed

lemma replicate_pad: "replicate (4 - n mod 4) (0::byte) = 0 # replicate (3 - n mod 4) 0"
proof -
  have "4 - n mod 4 = Suc (3 - n mod 4)" by presburger
  then show ?thesis by simp
qed

lemma least_multiple_of_4: "(LEAST m::nat. 4 dvd m \<and> n + 1 \<le> m) = 4 * (n div 4 + 1)"
proof (rule Least_equality)
  show "4 dvd 4 * (n div 4 + 1) \<and> n + 1 \<le> 4 * (n div 4 + 1)" by presburger
next
  fix y :: nat
  assume "4 dvd y \<and> n + 1 \<le> y"
  then show "4 * (n div 4 + 1) \<le> y" by presburger
qed

text \<open>
  C5. \<^verbatim>\<open>writePaddedString\<close> appends the bytes of the string, a zero byte that
  ends it, and further zero bytes; what it appends has the least length that is a
  multiple of 4 and at least the length of the string plus one, and that length is
  the number the call returns. \<^verbatim>\<open>"abcd"\<close> becomes 8 bytes and \<^verbatim>\<open>"abc"\<close> becomes 4.
\<close>

theorem writePaddedString_layout:
  "fst (writePaddedString str buff)
     = buff @ bytes_of_string str @ 0 # replicate (3 - length str mod 4) 0
   \<and> length (bytes_of_string str @ 0 # replicate (3 - length str mod 4) 0)
       = (LEAST m. 4 dvd m \<and> length str + 1 \<le> m)
   \<and> snd (writePaddedString str buff)
       = int (LEAST m. 4 dvd m \<and> length str + 1 \<le> m)
   \<and> fst (writePaddedString ''abcd'' []) = [97, 98, 99, 100, 0, 0, 0, 0]
   \<and> fst (writePaddedString ''abc'' []) = [97, 98, 99, 0]"
proof (intro conjI)
  show "fst (writePaddedString str buff)
     = buff @ bytes_of_string str @ 0 # replicate (3 - length str mod 4) 0"
    using padBytesNeeded_pos [of "length str"]
    by (simp add: writePaddedString_def Let_def padBytesNeeded_nat replicate_pad)
  have len: "length str + Suc (3 - length str mod 4) = 4 * (length str div 4 + 1)"
    by presburger
  show "length (bytes_of_string str @ 0 # replicate (3 - length str mod 4) 0)
       = (LEAST m. 4 dvd m \<and> length str + 1 \<le> m)"
    by (simp only: least_multiple_of_4 length_append length_Cons length_replicate
        bytes_of_string_def length_map len)
  have "int (length str) + padBytesNeeded (int (length str)) = int (4 * (length str div 4 + 1))"
    by (simp add: padBytesNeeded_nonneg zdiv_int zmod_int minus_mod_eq_mult_div)
  then show "snd (writePaddedString str buff)
       = int (LEAST m. 4 dvd m \<and> length str + 1 \<le> m)"
    by (simp only: least_multiple_of_4) (simp add: writePaddedString_def Let_def)
  show "fst (writePaddedString ''abcd'' []) = [97, 98, 99, 100, 0, 0, 0, 0]"
    by code_simp
  show "fst (writePaddedString ''abc'' []) = [97, 98, 99, 0]"
    by code_simp
qed

text \<open>
  C4. \<^verbatim>\<open>writeBlob\<close> appends the length, the data and then \<open>4 - N mod 4\<close> zero
  bytes, which is 4 and not 0 when the length \<open>N\<close> of the data is a multiple of 4:
  a blob of 4 bytes becomes 12 bytes, not 8. A blob of 3 bytes becomes 8 bytes.
\<close>

theorem writeBlob_layout:
  "fst (writeBlob data buff)
     = buff @ be32 (of_nat (length data)) @ data @ replicate (4 - length data mod 4) 0
   \<and> writeBlob [1, 2, 3, 4] [] = ([0, 0, 0, 4, 1, 2, 3, 4, 0, 0, 0, 0], 12)
   \<and> writeBlob [1, 2, 3] [] = ([0, 0, 0, 3, 1, 2, 3, 0], 8)"
proof (intro conjI)
  show "fst (writeBlob data buff)
     = buff @ be32 (of_nat (length data)) @ data @ replicate (4 - length data mod 4) 0"
    using padBytesNeeded_pos [of "length data"]
    by (simp add: writeBlob_def Let_def padBytesNeeded_nat)
  show "writeBlob [1, 2, 3, 4] [] = ([0, 0, 0, 4, 1, 2, 3, 4, 0, 0, 0, 0], 12)"
    by code_simp
  show "writeBlob [1, 2, 3] [] = ([0, 0, 0, 3, 1, 2, 3, 0], 8)"
    by code_simp
qed

subsection \<open>Messages\<close>

text \<open>
  C10. \<^verbatim>\<open>Append\<close> with the nil argument returns the nil error and leaves the
  message as it was, so no message built with \<^verbatim>\<open>NewOscMessage\<close> and calls of
  \<^verbatim>\<open>Append\<close> holds a nil argument; the encoder still has a case for nil, which
  adds the tag \<^verbatim>\<open>'N'\<close> and no payload.
\<close>

theorem Append_nil_ignored:
  "Append msg NilV = (msg, None)
   \<and> NilV \<notin> set (arguments (appendAll (NewOscMessage address) args))
   \<and> encodeArguments (NilV # rest) typetags payload
       = encodeArguments rest (typetags @ ''N'') payload
   \<and> encodeArguments [NilV] typetags payload = Inr (typetags @ ''N'', payload)"
proof -
  have step: "NilV \<notin> set (arguments (fst (Append m a)))" if "NilV \<notin> set (arguments m)" for m a
    using that by (simp add: Append_def)
  have "NilV \<notin> set (arguments (appendAll m args))" if "NilV \<notin> set (arguments m)" for m
    using that
  proof (induction args arbitrary: m)
    case Nil
    then show ?case by (simp add: appendAll_def)
  next
    case (Cons a args)
    from Cons.IH [OF step [OF Cons.prems]] show ?case by (simp add: appendAll_def)
  qed
  then have "NilV \<notin> set (arguments (appendAll (NewOscMessage address) args))"
    by (simp add: NewOscMessage_def)
  then show ?thesis by (simp add: Append_def)
qed

text \<open>
  C3. \<^verbatim>\<open>Match\<close> returns true for every message and every address (its body is
  marked \<^verbatim>\<open>TODO: Implement the pattern matching!\<close>), also on the three pairs the
  specification says do not match.
\<close>

theorem Match_always_true:
  "Match msg address
   \<and> Match (NewOscMessage ''/foo/bar/baz'') ''/foo/*''
   \<and> Match (NewOscMessage ''/foo/qux'') ''/foo/{bar,baz}''
   \<and> Match (NewOscMessage ''fooo'') ''?oo''"
  by (simp add: Match_def)

text \<open>
  C1. Encoding a message and decoding the bytes does not give the message back for
  every kind of argument: a blob comes back empty, with its bytes left in the
  reader; a \<^verbatim>\<open>bool\<close> makes the decoder read a byte the encoder never wrote; nil
  is encoded as \<^verbatim>\<open>'N'\<close>, a tag the decoder rejects; a time tag comes back as a
  pointer to a time tag. Numbers and strings do come back.
\<close>

theorem message_round_trip_fails:
  "OscMessage_ToByteArray \<lparr>Address = ''/a'', arguments = [BlobV [1, 2, 3]]\<rparr>
     = Inr [47, 97, 0, 0, 44, 98, 0, 0, 0, 0, 0, 3, 1, 2, 3, 0]
   \<and> readMessage [47, 97, 0, 0, 44, 98, 0, 0, 0, 0, 0, 3, 1, 2, 3, 0]
     = Inr (\<lparr>Address = ''/a'', arguments = [BlobV []]\<rparr>, [0, 0, 0, 3, 1, 2, 3, 0])
   \<and> roundTrip \<lparr>Address = ''/a'', arguments = [BlobV [1, 2, 3]]\<rparr>
     = Inr \<lparr>Address = ''/a'', arguments = [BlobV []]\<rparr>
   \<and> roundTrip \<lparr>Address = ''/a'', arguments = [BoolV True]\<rparr> = Inl EOF
   \<and> roundTrip \<lparr>Address = ''/a'', arguments = [BoolV False]\<rparr> = Inl EOF
   \<and> roundTrip \<lparr>Address = ''/a'', arguments = [NilV]\<rparr> = Inl (UnsupportedTypeTag CHR ''N'')
   \<and> roundTrip \<lparr>Address = ''/a'',
                 arguments = [TimetagV (NewOscTimetag \<lparr>Unix = 10, Nanosecond = 20\<rparr>)]\<rparr>
     = Inr \<lparr>Address = ''/a'',
            arguments = [TimetagPtrV (NewOscTimetag \<lparr>Unix = 10, Nanosecond = 20\<rparr>)]\<rparr>
   \<and> roundTrip \<lparr>Address = ''/a'',
                 arguments = [Int32V 5, StringV ''abcd'', Int64V 7, Float32V 0x3F800000]\<rparr>
     = Inr \<lparr>Address = ''/a'',
            arguments = [Int32V 5, StringV ''abcd'', Int64V 7, Float32V 0x3F800000]\<rparr>"
  by code_simp

text \<open>
  C6. For the tags \<^verbatim>\<open>'T'\<close> and \<^verbatim>\<open>'F'\<close> the decoder takes one byte from the
  reader and appends whether that byte is not zero, whichever of the two tags it
  is, and fails when no byte is left; for \<^verbatim>\<open>'N'\<close> it fails with "Unsupported type
  tag". The byte taken shifts every argument read after it. In the server the byte
  after a datagram that ends with its type tags is a zero of the buffer, so the
  tag \<^verbatim>\<open>'T'\<close> is decoded as \<^verbatim>\<open>false\<close>.
\<close>

theorem decode_bool_nil_tags:
  "readArgumentsLoop ''T'' msg (b # reader)
     = Inr (msg\<lparr>arguments := arguments msg @ [BoolV (b \<noteq> 0)]\<rparr>, reader)
   \<and> readArgumentsLoop ''F'' msg (b # reader)
     = Inr (msg\<lparr>arguments := arguments msg @ [BoolV (b \<noteq> 0)]\<rparr>, reader)
   \<and> readArgumentsLoop ''T'' msg [] = Inl EOF
   \<and> readArgumentsLoop ''F'' msg [] = Inl EOF
   \<and> readArgumentsLoop (CHR ''N'' # tags) msg reader = Inl (UnsupportedTypeTag CHR ''N'')
   \<and> readMessage [47, 97, 0, 0, 44, 84, 0, 0] = Inl EOF
   \<and> readMessage [47, 97, 0, 0, 44, 78, 0, 0] = Inl (UnsupportedTypeTag CHR ''N'')
   \<and> readMessage [47, 97, 0, 0, 44, 70, 105, 0, 1, 0, 0, 5]
     = Inl ErrUnexpectedEOF
   \<and> readMessage [47, 97, 0, 0, 44, 84, 105, 0, 0, 0, 0, 5, 9]
     = Inr (\<lparr>Address = ''/a'', arguments = [BoolV False, Int32V 0x509]\<rparr>, [])
   \<and> readFromConnection now (Inr [47, 97, 0, 0, 44, 84, 0, 0])
     = Inr (Some (OscBundle (NewOscTimetag now)
                    [\<lparr>Address = ''/a'', arguments = [BoolV False]\<rparr>] []))"
proof (intro conjI)
  show "readArgumentsLoop ''T'' msg (b # reader)
     = Inr (msg\<lparr>arguments := arguments msg @ [BoolV (b \<noteq> 0)]\<rparr>, reader)"
    by (simp add: binary_Read_bool_def ReadFull_def Append_def)
  show "readArgumentsLoop ''F'' msg (b # reader)
     = Inr (msg\<lparr>arguments := arguments msg @ [BoolV (b \<noteq> 0)]\<rparr>, reader)"
    by (simp add: binary_Read_bool_def ReadFull_def Append_def)
  show "readArgumentsLoop ''T'' msg [] = Inl EOF"
    by (simp add: binary_Read_bool_def ReadFull_def)
  show "readArgumentsLoop ''F'' msg [] = Inl EOF"
    by (simp add: binary_Read_bool_def ReadFull_def)
  show "readArgumentsLoop (CHR ''N'' # tags) msg reader = Inl (UnsupportedTypeTag CHR ''N'')"
    by simp
  show "readMessage [47, 97, 0, 0, 44, 84, 0, 0] = Inl EOF"
    by code_simp
  show "readMessage [47, 97, 0, 0, 44, 78, 0, 0] = Inl (UnsupportedTypeTag CHR ''N'')"
    by code_simp
  show "readMessage [47, 97, 0, 0, 44, 70, 105, 0, 1, 0, 0, 5]
     = Inl ErrUnexpectedEOF"
    by code_simp
  show "readMessage [47, 97, 0, 0, 44, 84, 105, 0, 0, 0, 0, 5, 9]
     = Inr (\<lparr>Address = ''/a'', arguments = [BoolV False, Int32V 0x509]\<rparr>, [])"
    by code_simp
  show "readFromConnection now (Inr [47, 97, 0, 0, 44, 84, 0, 0])
     = Inr (Some (OscBundle (NewOscTimetag now)
                    [\<lparr>Address = ''/a'', arguments = [BoolV False]\<rparr>] []))"
    by code_simp
qed

subsection \<open>Bundles\<close>

lemma OscBundle_Append_count:
  "length (Messages (OscBundle_Append b p)) + length (Bundles (OscBundle_Append b p))
     = Suc (length (Messages b) + length (Bundles b))"
  by (cases b; cases p) simp_all

text \<open>Whatever it reads, \<^verbatim>\<open>readBundle\<close> returns a bundle of at most one element.\<close>

lemma readBundle_at_most_one_element:
  assumes "readBundle reader = Inr (bundle, rest)"
  shows "length (Messages bundle) + length (Bundles bundle) \<le> 1"
proof -
  have new: "length (Messages (NewOscBundle t)) + length (Bundles (NewOscBundle t)) = 0" for t
    by (simp add: NewOscBundle_def)
  from assms show ?thesis
    by (subst (asm) readBundle.simps)
       (auto simp: Let_def OscBundle_Append_count new
             split: sum.splits prod.splits if_splits)
qed

text \<open>
  C2. A bundle of one message and one nested bundle is encoded as 68 bytes. From
  them \<^verbatim>\<open>readBundle\<close> returns a bundle with the time tag and the message only:
  the 36 bytes of the nested bundle are left in the reader.
\<close>

theorem bundle_round_trip_fails:
  "OscBundle_ToByteArray
     (OscBundle (NewOscTimetag \<lparr>Unix = 10, Nanosecond = 20\<rparr>)
        [\<lparr>Address = ''/a'', arguments = [Int32V 5]\<rparr>]
        [OscBundle (NewOscTimetag \<lparr>Unix = 11, Nanosecond = 21\<rparr>)
           [\<lparr>Address = ''/b'', arguments = [Int32V 6]\<rparr>] []])
     = Inr [35, 98, 117, 110, 100, 108, 101, 0, 131, 170, 126, 138, 0, 0, 0, 20,
            0, 0, 0, 12, 47, 97, 0, 0, 44, 105, 0, 0, 0, 0, 0, 5,
            0, 0, 0, 32, 35, 98, 117, 110, 100, 108, 101, 0, 131, 170, 126, 139, 0, 0, 0, 21,
            0, 0, 0, 12, 47, 98, 0, 0, 44, 105, 0, 0, 0, 0, 0, 6]
   \<and> readBundle
       [35, 98, 117, 110, 100, 108, 101, 0, 131, 170, 126, 138, 0, 0, 0, 20,
        0, 0, 0, 12, 47, 97, 0, 0, 44, 105, 0, 0, 0, 0, 0, 5,
        0, 0, 0, 32, 35, 98, 117, 110, 100, 108, 101, 0, 131, 170, 126, 139, 0, 0, 0, 21,
        0, 0, 0, 12, 47, 98, 0, 0, 44, 105, 0, 0, 0, 0, 0, 6]
     = Inr (OscBundle (NewOscTimetag \<lparr>Unix = 10, Nanosecond = 20\<rparr>)
              [\<lparr>Address = ''/a'', arguments = [Int32V 5]\<rparr>] [],
            [0, 0, 0, 32, 35, 98, 117, 110, 100, 108, 101, 0, 131, 170, 126, 139, 0, 0, 0, 21,
             0, 0, 0, 12, 47, 98, 0, 0, 44, 105, 0, 0, 0, 0, 0, 6])"
  by code_simp

subsection \<open>Time tags\<close>

lemma ucast_low32: "(ucast (ucast (n :: 64 word) :: 32 word) :: 64 word) = take_bit 32 n"
  by (rule bit_word_eqI) (auto simp: bit_simps)

lemma timeToTimetag_or:
  "timeToTimetag t = push_bit 32 (secondsFrom1900To1970 + Unix t) OR take_bit 32 (Nanosecond t)"
proof -
  have "push_bit 32 (secondsFrom1900To1970 + Unix t) AND take_bit 32 (Nanosecond t) = 0"
    by (rule bit_word_eqI) (auto simp: bit_simps)
  then show ?thesis
    by (simp add: timeToTimetag_def Let_def ucast_low32 disjunctive_add_eq_or)
qed

text \<open>
  C7. The high 32 bits of the time tag are the low 32 bits of the Unix seconds plus
  2208988800. The low 32 bits are the nanoseconds themselves, not the nanoseconds
  scaled by \<open>2 ^ 32 / 10 ^ 9\<close>: half a second gives 500000000 and not
  \<open>2 ^ 31 = 2147483648\<close>.
\<close>

theorem timeToTimetag_halves:
  "drop_bit 32 (timeToTimetag t) = take_bit 32 (secondsFrom1900To1970 + Unix t)
   \<and> take_bit 32 (timeToTimetag t) = take_bit 32 (Nanosecond t)
   \<and> timeToTimetag \<lparr>Unix = 0, Nanosecond = 500000000\<rparr> = push_bit 32 2208988800 + 500000000
   \<and> take_bit 32 (timeToTimetag \<lparr>Unix = 0, Nanosecond = 500000000\<rparr>) = 500000000"
proof (intro conjI)
  show "drop_bit 32 (timeToTimetag t) = take_bit 32 (secondsFrom1900To1970 + Unix t)"
    unfolding timeToTimetag_or by (rule bit_word_eqI) (auto simp: bit_simps)
  show "take_bit 32 (timeToTimetag t) = take_bit 32 (Nanosecond t)"
    unfolding timeToTimetag_or by (rule bit_word_eqI) (auto simp: bit_simps)
  show "timeToTimetag \<lparr>Unix = 0, Nanosecond = 500000000\<rparr> = push_bit 32 2208988800 + 500000000"
    by code_simp
  show "take_bit 32 (timeToTimetag \<lparr>Unix = 0, Nanosecond = 500000000\<rparr>) = 500000000"
    by code_simp
qed

subsection \<open>The server's reader\<close>

text \<open>
  C8. A datagram whose first byte is neither \<^verbatim>\<open>'/'\<close> nor \<^verbatim>\<open>'#'\<close> takes neither
  branch of \<^verbatim>\<open>readFromConnection\<close>, which returns the nil bundle and the nil
  error: no packet, and no error either.
\<close>

theorem readFromConnection_other_first_byte:
  "b \<noteq> of_char CHR ''/'' \<Longrightarrow> b \<noteq> of_char CHR ''#''
   \<Longrightarrow> readFromConnection now (Inr (b # bs)) = Inr None"
  by (simp add: readFromConnection_def Let_def Peek1_def)

theorem readFromConnection_other_first_byte_witness:
  "(65 :: byte) \<noteq> of_char CHR ''/'' \<and> (65 :: byte) \<noteq> of_char CHR ''#''
   \<and> readFromConnection \<lparr>Unix = 0, Nanosecond = 0\<rparr> (Inr [65, 66, 67, 0]) = Inr None"
proof -
  have h1: "(65 :: byte) \<noteq> of_char CHR ''/''" by simp
  have h2: "(65 :: byte) \<noteq> of_char CHR ''#''" by simp
  from readFromConnection_other_first_byte [OF h1 h2] h1 h2 show ?thesis by blast
qed

subsection \<open>The client\<close>

text \<open>The only error of the encoders is the one for an argument of an unsupported type.\<close>

lemma encodeArguments_error:
  "encodeArguments args typetags payload = Inl e \<Longrightarrow> e = UnsupportedType"
  by (induction args arbitrary: typetags payload)
     (auto split: argument.splits if_splits)

lemma OscMessage_ToByteArray_error: "OscMessage_ToByteArray msg = Inl e \<Longrightarrow> e = UnsupportedType"
  by (auto simp: OscMessage_ToByteArray_def Let_def split: sum.splits prod.splits
      dest: encodeArguments_error)

lemma encodeMessages_error: "encodeMessages ms data = Inl e \<Longrightarrow> e = UnsupportedType"
  by (induction ms arbitrary: data)
     (auto split: sum.splits dest: OscMessage_ToByteArray_error)

lemma OscBundle_ToByteArray_error:
  "OscBundle_ToByteArray b = Inl e \<Longrightarrow> e = UnsupportedType"
  "encodeBundles bs data = Inl e \<Longrightarrow> e = UnsupportedType"
  by (induction b and bs data rule: OscBundle_ToByteArray_encodeBundles.induct)
     (auto simp: Let_def split: sum.splits dest: encodeMessages_error)

lemma ToByteArray_error: "ToByteArray packet = Inl e \<Longrightarrow> e = UnsupportedType"
  by (cases packet) (auto dest: OscMessage_ToByteArray_error OscBundle_ToByteArray_error)

text \<open>
  C9. \<^verbatim>\<open>Send\<close> returns an error to its caller when the resolution of the
  address fails, when the dial fails, when the encoding of the packet fails and
  when the write fails, and nil when none of them does. After a failed resolution
  the error is the one \<^verbatim>\<open>net.DialUDP\<close> gives for the nil address (the resolver's
  own error goes to the blank identifier); the error of the encoding is the one
  for an unsupported argument type.
\<close>

theorem Send_returns_errors:
  "(ResolveUDPAddr net (ipaddress client) (port client) = Inl r
      \<longrightarrow> Send net client packet = Some errMissingAddress)
   \<and> (ResolveUDPAddr net (ipaddress client) (port client) = Inr a
        \<and> dialUDP net a = Inl e
      \<longrightarrow> Send net client packet = Some e)
   \<and> (ResolveUDPAddr net (ipaddress client) (port client) = Inr a
        \<and> dialUDP net a = Inr conn \<and> ToByteArray packet = Inl e
      \<longrightarrow> Send net client packet = Some e \<and> e = UnsupportedType)
   \<and> (ResolveUDPAddr net (ipaddress client) (port client) = Inr a
        \<and> dialUDP net a = Inr conn \<and> ToByteArray packet = Inr data
        \<and> Write net conn data = Inl e
      \<longrightarrow> Send net client packet = Some e)
   \<and> (ResolveUDPAddr net (ipaddress client) (port client) = Inr a
        \<and> dialUDP net a = Inr conn \<and> ToByteArray packet = Inr data
        \<and> Write net conn data = Inr n
      \<longrightarrow> Send net client packet = None)"
  by (auto simp: Send_def DialUDP_def Let_def dest: ToByteArray_error)

theorem Send_returns_errors_witness:
  "Send \<lparr>ResolveUDPAddr = (\<lambda>host p. Inl (NetError ''no such host'')),
         dialUDP = (\<lambda>a. Inr (UDPConn a)),
         Write = (\<lambda>conn data. Inr (int (length data)))\<rparr>
     (NewOscClient ''nowhere.invalid'' 8765) (MessagePacket (NewOscMessage ''/a''))
     = Some errMissingAddress
   \<and> Send \<lparr>ResolveUDPAddr = (\<lambda>host p. Inr (UDPAddr host p)),
           dialUDP = (\<lambda>a. Inl (NetError ''connection refused'')),
           Write = (\<lambda>conn data. Inr (int (length data)))\<rparr>
       (NewOscClient ''127.0.0.1'' 8765) (MessagePacket (NewOscMessage ''/a''))
     = Some (NetError ''connection refused'')
   \<and> Send \<lparr>ResolveUDPAddr = (\<lambda>host p. Inr (UDPAddr host p)),
           dialUDP = (\<lambda>a. Inr (UDPConn a)),
           Write = (\<lambda>conn data. Inr (int (length data)))\<rparr>
       (NewOscClient ''127.0.0.1'' 8765)
       (MessagePacket \<lparr>Address = ''/a'', arguments = [OtherV]\<rparr>)
     = Some UnsupportedType
   \<and> Send \<lparr>ResolveUDPAddr = (\<lambda>host p. Inr (UDPAddr host p)),
           dialUDP = (\<lambda>a. Inr (UDPConn a)),
           Write = (\<lambda>conn data. Inl (NetError ''message too long''))\<rparr>
       (NewOscClient ''127.0.0.1'' 8765) (MessagePacket (NewOscMessage ''/a''))
     = Some (NetError ''message too long'')
   \<and> Send \<lparr>ResolveUDPAddr = (\<lambda>host p. Inr (UDPAddr host p)),
           dialUDP = (\<lambda>a. Inr (UDPConn a)),
           Write = (\<lambda>conn data. Inr (int (length data)))\<rparr>
       (NewOscClient ''127.0.0.1'' 8765) (MessagePacket (NewOscMessage ''/a''))
     = None"
proof (intro conjI)
  let ?ok = "\<lambda>conn (data :: byte list). Inr (int (length data)) :: error + int"
  let ?resolve = "\<lambda>host p. Inr (UDPAddr host p) :: error + UDPAddr"
  let ?dial = "\<lambda>a. Inr (UDPConn a) :: error + UDPConn"
  let ?a = "UDPAddr ''127.0.0.1'' 8765"
  let ?c = "NewOscClient ''127.0.0.1'' 8765"
  let ?p = "MessagePacket (NewOscMessage ''/a'')"
  have data: "ToByteArray ?p = Inr [47, 97, 0, 0, 44, 0, 0, 0]"
    by code_simp
  show "Send \<lparr>ResolveUDPAddr = (\<lambda>host p. Inl (NetError ''no such host'')),
         dialUDP = ?dial, Write = ?ok\<rparr>
     (NewOscClient ''nowhere.invalid'' 8765) ?p = Some errMissingAddress"
    using Send_returns_errors
      [of "\<lparr>ResolveUDPAddr = (\<lambda>host p. Inl (NetError ''no such host'')),
            dialUDP = ?dial, Write = ?ok\<rparr>"
          "NewOscClient ''nowhere.invalid'' 8765" "NetError ''no such host''" ?p]
    by simp
  show "Send \<lparr>ResolveUDPAddr = ?resolve,
           dialUDP = (\<lambda>a. Inl (NetError ''connection refused'')), Write = ?ok\<rparr>
       ?c ?p = Some (NetError ''connection refused'')"
    using Send_returns_errors
      [of "\<lparr>ResolveUDPAddr = ?resolve,
            dialUDP = (\<lambda>a. Inl (NetError ''connection refused'')), Write = ?ok\<rparr>"
          ?c _ ?p ?a "NetError ''connection refused''"]
    by (simp add: NewOscClient_def)
  show "Send \<lparr>ResolveUDPAddr = ?resolve, dialUDP = ?dial, Write = ?ok\<rparr>
       ?c (MessagePacket \<lparr>Address = ''/a'', arguments = [OtherV]\<rparr>) = Some UnsupportedType"
    using Send_returns_errors
      [of "\<lparr>ResolveUDPAddr = ?resolve, dialUDP = ?dial, Write = ?ok\<rparr>"
          ?c _ "MessagePacket \<lparr>Address = ''/a'', arguments = [OtherV]\<rparr>" ?a
          UnsupportedType "UDPConn ?a"]
    by (simp add: NewOscClient_def OscMessage_ToByteArray_def Let_def)
  show "Send \<lparr>ResolveUDPAddr = ?resolve, dialUDP = ?dial,
           Write = (\<lambda>conn data. Inl (NetError ''message too long''))\<rparr>
       ?c ?p = Some (NetError ''message too long'')"
    using Send_returns_errors
      [of "\<lparr>ResolveUDPAddr = ?resolve, dialUDP = ?dial,
            Write = (\<lambda>conn data. Inl (NetError ''message too long''))\<rparr>"
          ?c _ ?p ?a "NetError ''message too long''" "UDPConn ?a"
          "[47, 97, 0, 0, 44, 0, 0, 0]"]
      data
    by (simp add: NewOscClient_def)
  show "Send \<lparr>ResolveUDPAddr = ?resolve, dialUDP = ?dial, Write = ?ok\<rparr> ?c ?p = None"
    using Send_returns_errors
      [of "\<lparr>ResolveUDPAddr = ?resolve, dialUDP = ?dial, Write = ?ok\<rparr>"
          ?c _ ?p ?a _ "UDPConn ?a" "[47, 97, 0, 0, 44, 0, 0, 0]" 8]
      data
    by (simp add: NewOscClient_def)
qed

end
